theory Spec2Isabelle
  imports Main "HOL-Library.Word"
begin

section \<open>Values, exceptions and the HTTP collaborators\<close>

text \<open>
  Python values that travel through the handlers: the result of \<^verbatim>\<open>res.json()\<close> and the
  fields read from it. \<open>JNull\<close> is Python's \<^verbatim>\<open>None\<close> (a JSON \<^verbatim>\<open>null\<close> parses to it, and
  \<^verbatim>\<open>dict.get\<close> returns it for a missing key). A float is carried as its IEEE-754 bit
  pattern and never inspected. \<open>JObj\<close> lists the items of a dict, keys distinct.
\<close>

datatype json =
    JNull
  | JBool bool
  | JInt int
  | JFloat "64 word"
  | JStr string
  | JArr "json list"
  | JObj "(string \<times> json) list"

text \<open>The exceptions of \<^verbatim>\<open>delfin.exception\<close> that the two handlers raise, and the
  built-in ones that attribute access, iteration and JSON decoding raise. \<open>OtherError\<close>
  stands for whatever the transport or the cryptor raises.\<close>

datatype exn =
    InvalidResults string
  | InvalidUsernameOrPassword
  | StorageBackendException string
  | BadResponse string
  | AttributeError
  | TypeError
  | JSONDecodeError
  | OtherError string

text \<open>A \<^verbatim>\<open>requests.Response\<close>: \<open>res_body\<close> is what \<^verbatim>\<open>res.json()\<close> parses, \<open>None\<close> when the
  body is not JSON.\<close>

record response =
  status_code :: int
  res_text :: string
  res_body :: "json option"

text \<open>A \<^verbatim>\<open>requests.Session\<close>: the header dict and the \<^verbatim>\<open>auth\<close> attribute (user, password).\<close>

record session =
  headers :: "string \<rightharpoonup> string"
  auth :: "(string \<times> string) option"

text \<open>One invocation of \<^verbatim>\<open>do_call\<close>: its arguments and the session it was issued on.\<close>

record request =
  req_url :: string
  req_data :: json
  req_method :: "string option"
  req_timeout :: "int option"
  req_session :: "session option"

text \<open>
  What the two source files import and do not define, taken as parameters:
  the transport behind \<^verbatim>\<open>RestClient.do_call\<close> (its answer may depend on the earlier
  invocations), \<^verbatim>\<open>cryptor.encode\<close> and \<^verbatim>\<open>cryptor.decode\<close>, Python's \<^verbatim>\<open>str()\<close> as the
  f-strings apply it, the session that \<^verbatim>\<open>RestClient.init_http_head\<close> installs, and the
  constants of \<^verbatim>\<open>delfin.drivers.hitachi.vsp.consts\<close>.
\<close>

record env =
  transport :: "request list \<Rightarrow> request \<Rightarrow> exn + response"
  cryptor_encode :: "json \<Rightarrow> exn + string"
  cryptor_decode :: "string \<Rightarrow> exn + string"
  py_str :: "json \<Rightarrow> string"
  new_session :: session
  ERROR_SESSION_INVALID_CODE :: int
  ERROR_SESSION_IS_BEING_USED_CODE :: int
  SUPPORTED_VSP_SERIES :: "string list"
  SOCKET_TIMEOUT :: int

text \<open>The attributes of \<^verbatim>\<open>RestClient\<close> that the handlers read, and \<open>sent\<close>, the
  invocations of \<^verbatim>\<open>do_call\<close> so far, oldest first.\<close>

record rest_client =
  rest_host :: "string option"
  rest_username :: string
  rest_password :: string
  san_address :: string
  session :: "session option"
  sent :: "request list"

text \<open>The Hitachi VSP \<^verbatim>\<open>RestHandler(RestClient)\<close>; \<open>None\<close> and \<open>JNull\<close> are Python's \<^verbatim>\<open>None\<close>.\<close>

record vsp_handler = rest_client +
  session_id :: "string option"
  storage_device_id :: json
  device_model :: json
  serial_number :: json

section \<open>Python helpers\<close>

fun startswith :: "string \<Rightarrow> string \<Rightarrow> bool" where
  "startswith s [] = True"
| "startswith [] (p # ps) = False"
| "startswith (c # cs) (p # ps) = (c = p \<and> startswith cs ps)"

text \<open>\<^verbatim>\<open>sub in s\<close> on strings.\<close>

fun str_in :: "string \<Rightarrow> string \<Rightarrow> bool" where
  "str_in sub [] = (sub = [])"
| "str_in sub (c # cs) = (startswith (c # cs) sub \<or> str_in sub cs)"

text \<open>\<^verbatim>\<open>d.get(k)\<close> on the items of a dict.\<close>

definition dict_get :: "(string \<times> json) list \<Rightarrow> string \<Rightarrow> json" where
  "dict_get kvs k = (case map_of kvs k of None \<Rightarrow> JNull | Some v \<Rightarrow> v)"

text \<open>\<^verbatim>\<open>v.get(k)\<close> on any value: only a dict has the attribute.\<close>

definition py_get :: "json \<Rightarrow> string \<Rightarrow> exn + json" where
  "py_get v k = (case v of JObj kvs \<Rightarrow> Inr (dict_get kvs k) | _ \<Rightarrow> Inl AttributeError)"

text \<open>\<^verbatim>\<open>for x in v\<close>: a list gives its elements, a dict its keys, a string its characters;
  nothing else is iterable.\<close>

definition py_iter :: "json \<Rightarrow> exn + json list" where
  "py_iter v = (case v of
      JArr xs \<Rightarrow> Inr xs
    | JObj kvs \<Rightarrow> Inr (map (\<lambda>kv. JStr (fst kv)) kvs)
    | JStr s \<Rightarrow> Inr (map (\<lambda>c. JStr [c]) s)
    | _ \<Rightarrow> Inl TypeError)"

text \<open>\<^verbatim>\<open>res.json()\<close>.\<close>

definition res_json :: "response \<Rightarrow> exn + json" where
  "res_json res = (case res_body res of None \<Rightarrow> Inl JSONDecodeError | Some j \<Rightarrow> Inr j)"

text \<open>\<^verbatim>\<open>v == self.rest_host\<close>, the host being a string or \<^verbatim>\<open>None\<close>.\<close>

definition eq_host :: "json \<Rightarrow> string option \<Rightarrow> bool" where
  "eq_host v h = (case h of None \<Rightarrow> v = JNull | Some s \<Rightarrow> v = JStr s)"

text \<open>\<^verbatim>\<open>v in consts.SUPPORTED_VSP_SERIES\<close>, a tuple of model names.\<close>

definition in_series :: "json \<Rightarrow> string list \<Rightarrow> bool" where
  "in_series v series = (case v of JStr s \<Rightarrow> List.member series s | _ \<Rightarrow> False)"

section \<open>RestClient\<close>

text \<open>An assignment through \<^verbatim>\<open>self.session\<close>; on \<^verbatim>\<open>None\<close> the attribute access raises.\<close>

definition with_session ::
  "(session \<Rightarrow> session) \<Rightarrow> 'a rest_client_scheme \<Rightarrow> exn + 'a rest_client_scheme" where
  "with_session f st =
     (case session st of
        None \<Rightarrow> Inl AttributeError
      | Some s \<Rightarrow> Inr (st\<lparr>session := Some (f s)\<rparr>))"

text \<open>Modelled from the spec: \<^verbatim>\<open>RestClient.do_call\<close> is not among the sources. Following
  the Transport contract (one HTTP request per invocation, no internal retry, a failure
  to reach the endpoint surfaces as an exception, not a status code), it hands the
  request to the \<open>transport\<close> parameter and records the invocation.\<close>

definition do_call ::
  "env \<Rightarrow> 'a rest_client_scheme \<Rightarrow> string \<Rightarrow> json \<Rightarrow> string option \<Rightarrow> int option
     \<Rightarrow> (exn + response) \<times> 'a rest_client_scheme" where
  "do_call env st url data method calltimeout =
     (let rq = \<lparr>req_url = url, req_data = data, req_method = method,
                req_timeout = calltimeout, req_session = session st\<rparr>
      in (transport env (sent st) rq, st\<lparr>sent := sent st @ [rq]\<rparr>))"

text \<open>Modelled from the spec: \<^verbatim>\<open>RestClient.init_http_head\<close> is not among the sources; it
  replaces the transport handle by a new session, the parameter \<open>new_session\<close>.\<close>

definition init_http_head :: "env \<Rightarrow> 'a rest_client_scheme \<Rightarrow> 'a rest_client_scheme" where
  "init_http_head env st = st\<lparr>session := Some (new_session env)\<rparr>"

section \<open>The Hitachi VSP handler\<close>

definition COMM_URL :: string where
  "COMM_URL = ''/ConfigurationManager/v1/objects/storages''"

definition LOGOUT_URL :: string where
  "LOGOUT_URL = ''/ConfigurationManager/v1/objects/sessions/''"

definition AUTH_KEY :: string where
  "AUTH_KEY = ''Authorization''"

definition call_with_token ::
  "env \<Rightarrow> vsp_handler \<Rightarrow> string \<Rightarrow> json \<Rightarrow> string option \<Rightarrow> int
     \<Rightarrow> (exn + response) \<times> vsp_handler" where
  "call_with_token env st url data method calltimeout =
     (case session st of
        None \<Rightarrow> do_call env st url data method (Some calltimeout)
      | Some s \<Rightarrow>
          (case headers s AUTH_KEY of
             None \<Rightarrow> do_call env st url data method (Some calltimeout)
           | Some auth_key \<Rightarrow>
               if auth_key = [] then do_call env st url data method (Some calltimeout)
               else
                 (case cryptor_decode env auth_key of
                    Inl e \<Rightarrow> (Inl e, st)
                  | Inr plain \<Rightarrow>
                      (case do_call env
                              (st\<lparr>session := Some (s\<lparr>headers := (headers s)(AUTH_KEY \<mapsto> plain)\<rparr>)\<rparr>)
                              url data method (Some calltimeout) of
                         (Inl e, st1) \<Rightarrow> (Inl e, st1)
                       | (Inr res, st1) \<Rightarrow>
                           (case with_session
                                   (\<lambda>s1. s1\<lparr>headers := (headers s1)(AUTH_KEY \<mapsto> auth_key)\<rparr>) st1 of
                              Inl e \<Rightarrow> (Inl e, st1)
                            | Inr st2 \<Rightarrow> (Inr res, st2))))))"

definition get_token :: "env \<Rightarrow> vsp_handler \<Rightarrow> (exn + bool) \<times> vsp_handler" where
  "get_token env st =
     (if san_address st \<noteq> [] then
        (let url = COMM_URL @ ''/'' @ py_str env (storage_device_id st) @ ''/sessions'';
             st1 = (if session st = None then init_http_head env st else st)
         in case cryptor_decode env (rest_password st1) of
              Inl e \<Rightarrow> (Inl e, st1)
            | Inr password \<Rightarrow>
                (case with_session (\<lambda>s. s\<lparr>auth := Some (rest_username st1, password)\<rparr>) st1 of
                   Inl e \<Rightarrow> (Inl e, st1)
                 | Inr st2 \<Rightarrow>
                     (case call_with_token env st2 url (JObj []) (Some ''POST'') 30 of
                        (Inl e, st3) \<Rightarrow> (Inl e, st3)
                      | (Inr res, st3) \<Rightarrow>
                          if status_code res = 200 then
                            (case res_json res of
                               Inl e \<Rightarrow> (Inl e, st3)
                             | Inr result \<Rightarrow>
                                 (case py_get result ''sessionId'' of
                                    Inl e \<Rightarrow> (Inl e, st3)
                                  | Inr sid \<Rightarrow>
                                      (case cryptor_encode env sid of
                                         Inl e \<Rightarrow> (Inl e, st3)
                                       | Inr enc_sid \<Rightarrow>
                                           (let st4 = st3\<lparr>session_id := Some enc_sid\<rparr>
                                            in case py_get result ''token'' of
                                                 Inl e \<Rightarrow> (Inl e, st4)
                                               | Inr tok \<Rightarrow>
                                                   (case cryptor_encode env
                                                           (JStr (''Session '' @ py_str env tok)) of
                                                      Inl e \<Rightarrow> (Inl e, st4)
                                                    | Inr enc_tok \<Rightarrow>
                                                        (case with_session
                                                                (\<lambda>s. s\<lparr>headers :=
                                                                   (headers s)(AUTH_KEY \<mapsto> enc_tok)\<rparr>)
                                                                st4 of
                                                           Inl e \<Rightarrow> (Inl e, st4)
                                                         | Inr st5 \<Rightarrow> (Inr True, st5)))))))
                          else if str_in ''authentication failed'' (res_text res)
                            then (Inl InvalidUsernameOrPassword, st3)
                          else if str_in ''KART30005-E'' (res_text res)
                            then (Inl (StorageBackendException (res_text res)), st3)
                          else (Inl (BadResponse (res_text res)), st3))))
      else (Inr False, st))"

definition call ::
  "env \<Rightarrow> vsp_handler \<Rightarrow> string \<Rightarrow> json \<Rightarrow> string option \<Rightarrow> int
     \<Rightarrow> (exn + response) \<times> vsp_handler" where
  "call env st url data method calltimeout =
     (case call_with_token env st url data method calltimeout of
        (Inl e, st1) \<Rightarrow> (Inl e, st1)
      | (Inr res, st1) \<Rightarrow>
          if status_code res = ERROR_SESSION_INVALID_CODE env
               \<or> status_code res = ERROR_SESSION_IS_BEING_USED_CODE env then
            (if method = Some ''DELETE'' \<and> str_in LOGOUT_URL url then (Inr res, st1)
             else
               (case get_token env st1 of
                  (Inl e, st2) \<Rightarrow> (Inl e, st2)
                | (Inr True, st2) \<Rightarrow> call_with_token env st2 url data method calltimeout
                | (Inr False, st2) \<Rightarrow> (Inr res, st2)))
          else if status_code res = 503 then (Inl (InvalidResults (res_text res)), st1)
          else (Inr res, st1))"

text \<open>The test that opens \<^verbatim>\<open>get_rest_info\<close>: a session exists, the URL is not the
  discovery URL, and no \<^verbatim>\<open>Authorization\<close> header is cached.\<close>

definition needs_token :: "vsp_handler \<Rightarrow> string \<Rightarrow> bool" where
  "needs_token st url =
     (case session st of
        None \<Rightarrow> False
      | Some s \<Rightarrow> url \<noteq> COMM_URL \<and> headers s AUTH_KEY = None)"

definition get_rest_info ::
  "env \<Rightarrow> vsp_handler \<Rightarrow> string \<Rightarrow> int \<Rightarrow> json \<Rightarrow> (exn + json) \<times> vsp_handler" where
  "get_rest_info env st url timeout data =
     (case (if needs_token st url then get_token env st else (Inr False, st)) of
        (Inl e, st1) \<Rightarrow> (Inl e, st1)
      | (Inr _, st1) \<Rightarrow>
          (case call env st1 url data (Some ''GET'') timeout of
             (Inl e, st2) \<Rightarrow> (Inl e, st2)
           | (Inr res, st2) \<Rightarrow>
               if status_code res = 200 then
                 (case res_json res of Inl e \<Rightarrow> (Inl e, st2) | Inr j \<Rightarrow> (Inr j, st2))
               else (Inr JNull, st2)))"

definition get_system_info :: "env \<Rightarrow> vsp_handler \<Rightarrow> (exn + json) \<times> vsp_handler" where
  "get_system_info env st = get_rest_info env st COMM_URL 10 JNull"

text \<open>The three assignments made from the system that is selected.\<close>

definition select_system :: "(string \<times> json) list \<Rightarrow> vsp_handler \<Rightarrow> vsp_handler" where
  "select_system system st =
     st\<lparr>storage_device_id := dict_get system ''storageDeviceId'',
        device_model := dict_get system ''model'',
        serial_number := dict_get system ''serialNumber''\<rparr>"

text \<open>The \<^verbatim>\<open>for system in system_info\<close> loop of \<^verbatim>\<open>get_device_id\<close>, with the local
  \<^verbatim>\<open>succeed\<close> as an argument; a \<^verbatim>\<open>break\<close> returns at once.\<close>

fun get_device_id_loop ::
  "env \<Rightarrow> json list \<Rightarrow> bool \<Rightarrow> vsp_handler \<Rightarrow> (exn + bool) \<times> vsp_handler" where
  "get_device_id_loop env [] succeed st = (Inr succeed, st)"
| "get_device_id_loop env (sys # rest) succeed st =
     (case sys of
        JObj system \<Rightarrow>
          if in_series (dict_get system ''model'') (SUPPORTED_VSP_SERIES env) then
            (if eq_host (dict_get system ''ctl1Ip'') (rest_host st)
                  \<or> eq_host (dict_get system ''ctl2Ip'') (rest_host st)
             then (Inr True, select_system system st)
             else get_device_id_loop env rest True st)
          else if eq_host (dict_get system ''svpIp'') (rest_host st)
            then (Inr True, select_system system st)
          else get_device_id_loop env rest True st
      | _ \<Rightarrow> (Inl AttributeError, st))"

definition get_device_id :: "env \<Rightarrow> vsp_handler \<Rightarrow> (exn + bool) \<times> vsp_handler" where
  "get_device_id env st =
     (let st1 = (if session st = None then init_http_head env st else st)
      in case get_system_info env st1 of
           (Inl e, st2) \<Rightarrow> (Inl e, st2)
         | (Inr storage_systems, st2) \<Rightarrow>
             (case py_get storage_systems ''data'' of
                Inl e \<Rightarrow> (Inl e, st2)
              | Inr system_info \<Rightarrow>
                  (case py_iter system_info of
                     Inl e \<Rightarrow> (Inl e, st2)
                   | Inr systems \<Rightarrow> get_device_id_loop env systems False st2)))"

definition login :: "env \<Rightarrow> vsp_handler \<Rightarrow> (exn + bool) \<times> vsp_handler" where
  "login env st = get_device_id env st"

definition logout :: "env \<Rightarrow> vsp_handler \<Rightarrow> (exn + unit) \<times> vsp_handler" where
  "logout env st =
     (case session_id st of
        None \<Rightarrow> (Inr (), st)
      | Some sid \<Rightarrow>
          (case cryptor_decode env sid of
             Inl e \<Rightarrow> (Inl (StorageBackendException ''Failed to Logout from restful''), st)
           | Inr plain_sid \<Rightarrow>
               (let url = COMM_URL @ ''/'' @ py_str env (storage_device_id st)
                            @ ''/sessions/'' @ plain_sid
                in if san_address st \<noteq> [] then
                     (case call env st url JNull (Some ''DELETE'') (SOCKET_TIMEOUT env) of
                        (Inl e, st1) \<Rightarrow>
                          (Inl (StorageBackendException ''Failed to Logout from restful''), st1)
                      | (Inr res, st1) \<Rightarrow>
                          (Inr (), st1\<lparr>session_id := None, storage_device_id := JNull,
                                       device_model := JNull, serial_number := JNull,
                                       session := None\<rparr>))
                   else (Inr (), st))))"

section \<open>The Dell EMC VPLEX handler\<close>


section \<open>Notions used by the properties\<close>

text \<open>The \<^verbatim>\<open>Authorization\<close> slot of the shared session, if there is one.\<close>

definition auth_header :: "vsp_handler \<Rightarrow> string option" where
  "auth_header st = (case session st of None \<Rightarrow> None | Some s \<Rightarrow> headers s AUTH_KEY)"

text \<open>A value is in encrypted form when \<^verbatim>\<open>cryptor.encode\<close> produced it.\<close>

definition encoded :: "env \<Rightarrow> string \<Rightarrow> bool" where
  "encoded env h = (\<exists>p. cryptor_encode env p = Inr h)"

text \<open>Both cached secrets, the \<^verbatim>\<open>Authorization\<close> header and the session id, are absent
  or in encrypted form.\<close>

definition secrets_encoded :: "env \<Rightarrow> vsp_handler \<Rightarrow> bool" where
  "secrets_encoded env st =
     ((case auth_header st of None \<Rightarrow> True | Some h \<Rightarrow> encoded env h)
      \<and> (case session_id st of None \<Rightarrow> True | Some i \<Rightarrow> encoded env i))"

text \<open>The latest invocation of \<^verbatim>\<open>do_call\<close> ended in the exception \<open>e\<close> of the transport.\<close>

definition transport_raised :: "env \<Rightarrow> exn \<Rightarrow> vsp_handler \<Rightarrow> bool" where
  "transport_raised env e st =
     (sent st \<noteq> [] \<and> transport env (butlast (sent st)) (last (sent st)) = Inl e)"

text \<open>The condition under which the loop of \<^verbatim>\<open>get_device_id\<close> selects a system: a model
  of the supported series is compared by its two controller addresses, any other model
  by its service-processor address.\<close>

definition system_matches :: "env \<Rightarrow> string option \<Rightarrow> (string \<times> json) list \<Rightarrow> bool" where
  "system_matches env host system =
     (if in_series (dict_get system ''model'') (SUPPORTED_VSP_SERIES env)
      then eq_host (dict_get system ''ctl1Ip'') host \<or> eq_host (dict_get system ''ctl2Ip'') host
      else eq_host (dict_get system ''svpIp'') host)"

text \<open>The same condition in the words of the specification: the model is supported and
  one of the controller addresses is the host, or the service-processor address is the
  host.\<close>

definition spec_system_matches :: "env \<Rightarrow> string option \<Rightarrow> (string \<times> json) list \<Rightarrow> bool" where
  "spec_system_matches env host system =
     ((in_series (dict_get system ''model'') (SUPPORTED_VSP_SERIES env)
         \<and> (eq_host (dict_get system ''ctl1Ip'') host \<or> eq_host (dict_get system ''ctl2Ip'') host))
      \<or> eq_host (dict_get system ''svpIp'') host)"

text \<open>An entry of the discovery list that is a dict and is not selected.\<close>

definition passed_over :: "env \<Rightarrow> string option \<Rightarrow> json \<Rightarrow> bool" where
  "passed_over env host v =
     (case v of JObj system \<Rightarrow> \<not> system_matches env host system | _ \<Rightarrow> False)"

text \<open>The body of \<^verbatim>\<open>get_token\<close> under \<^verbatim>\<open>if self.san_address\<close>, cut in two for the proofs:
  \<open>token_request\<close> is everything up to and including the login \<^verbatim>\<open>POST\<close>, \<open>token_store\<close>
  what is done with its response. \<open>get_token_stages\<close> below shows that \<open>get_token\<close> is
  their composition.\<close>

definition token_request :: "env \<Rightarrow> vsp_handler \<Rightarrow> (exn + response) \<times> vsp_handler" where
  "token_request env st =
     (let url = COMM_URL @ ''/'' @ py_str env (storage_device_id st) @ ''/sessions'';
          st1 = (if session st = None then init_http_head env st else st)
      in case cryptor_decode env (rest_password st1) of
           Inl e \<Rightarrow> (Inl e, st1)
         | Inr password \<Rightarrow>
             (case with_session (\<lambda>s. s\<lparr>auth := Some (rest_username st1, password)\<rparr>) st1 of
                Inl e \<Rightarrow> (Inl e, st1)
              | Inr st2 \<Rightarrow> call_with_token env st2 url (JObj []) (Some ''POST'') 30))"

definition token_store :: "env \<Rightarrow> response \<Rightarrow> vsp_handler \<Rightarrow> (exn + bool) \<times> vsp_handler" where
  "token_store env res st3 =
     (if status_code res = 200 then
        (case res_json res of
           Inl e \<Rightarrow> (Inl e, st3)
         | Inr result \<Rightarrow>
             (case py_get result ''sessionId'' of
                Inl e \<Rightarrow> (Inl e, st3)
              | Inr sid \<Rightarrow>
                  (case cryptor_encode env sid of
                     Inl e \<Rightarrow> (Inl e, st3)
                   | Inr enc_sid \<Rightarrow>
                       (let st4 = st3\<lparr>session_id := Some enc_sid\<rparr>
                        in case py_get result ''token'' of
                             Inl e \<Rightarrow> (Inl e, st4)
                           | Inr tok \<Rightarrow>
                               (case cryptor_encode env (JStr (''Session '' @ py_str env tok)) of
                                  Inl e \<Rightarrow> (Inl e, st4)
                                | Inr enc_tok \<Rightarrow>
                                    (case with_session
                                            (\<lambda>s. s\<lparr>headers := (headers s)(AUTH_KEY \<mapsto> enc_tok)\<rparr>)
                                            st4 of
                                       Inl e \<Rightarrow> (Inl e, st4)
                                     | Inr st5 \<Rightarrow> (Inr True, st5)))))))
      else if str_in ''authentication failed'' (res_text res)
        then (Inl InvalidUsernameOrPassword, st3)
      else if str_in ''KART30005-E'' (res_text res)
        then (Inl (StorageBackendException (res_text res)), st3)
      else (Inl (BadResponse (res_text res)), st3))"

section \<open>Concrete collaborators and states\<close>

text \<open>A cryptor that marks a string with the prefix \<^verbatim>\<open>enc:\<close> and decodes only what bears
  the mark, \<^verbatim>\<open>str()\<close> on strings and \<^verbatim>\<open>None\<close>, an empty new session, and sample values for
  the constants.\<close>

definition example_env :: "(request list \<Rightarrow> request \<Rightarrow> exn + response) \<Rightarrow> env" where
  "example_env tr =
     \<lparr>transport = tr,
      cryptor_encode = (\<lambda>v. case v of JStr s \<Rightarrow> Inr (''enc:'' @ s) | _ \<Rightarrow> Inl AttributeError),
      cryptor_decode = (\<lambda>s. if startswith s ''enc:'' then Inr (drop 4 s)
                             else Inl (OtherError ''not an encoded value'')),
      py_str = (\<lambda>v. case v of JStr s \<Rightarrow> s | _ \<Rightarrow> ''None''),
      new_session = \<lparr>headers = Map.empty, auth = None\<rparr>,
      ERROR_SESSION_INVALID_CODE = 403,
      ERROR_SESSION_IS_BEING_USED_CODE = 409,
      SUPPORTED_VSP_SERIES = [''VSP G350'', ''VSP G370''],
      SOCKET_TIMEOUT = 180\<rparr>"

text \<open>A transport that gives every request the same answer.\<close>

definition answering ::
  "int \<Rightarrow> string \<Rightarrow> json option \<Rightarrow> request list \<Rightarrow> request \<Rightarrow> exn + response" where
  "answering code txt body hist rq =
     Inr \<lparr>status_code = code, res_text = txt, res_body = body\<rparr>"

text \<open>A transport that cannot reach the array.\<close>

definition unreachable :: "request list \<Rightarrow> request \<Rightarrow> exn + response" where
  "unreachable hist rq = Inl (OtherError ''connection refused'')"

text \<open>An array that opens a session for every POST, accepts the token \<^verbatim>\<open>tok1\<close> it hands
  out, and answers anything else with 403.\<close>

definition refreshing :: "request list \<Rightarrow> request \<Rightarrow> exn + response" where
  "refreshing hist rq =
     (if req_method rq = Some ''POST'' then
        Inr \<lparr>status_code = 200, res_text = ''created'',
             res_body = Some (JObj [(''token'', JStr ''tok1''), (''sessionId'', JStr ''7'')])\<rparr>
      else if (case req_session rq of
                 None \<Rightarrow> False
               | Some s \<Rightarrow> headers s AUTH_KEY = Some ''Session tok1'') then
        Inr \<lparr>status_code = 200, res_text = ''ok'', res_body = Some (JObj [])\<rparr>
      else
        Inr \<lparr>status_code = 403, res_text = ''session invalid'', res_body = None\<rparr>)"

text \<open>A handler that holds the stale token \<^verbatim>\<open>tok0\<close> of session \<^verbatim>\<open>5\<close>.\<close>

definition example_handler :: vsp_handler where
  "example_handler =
     \<lparr>rest_host = Some ''192.168.1.10'', rest_username = ''admin'',
      rest_password = ''enc:secret'', san_address = ''https://192.168.1.10:443'',
      session = Some \<lparr>headers = [AUTH_KEY \<mapsto> ''enc:Session tok0''], auth = None\<rparr>,
      sent = [],
      session_id = Some ''enc:5'', storage_device_id = JStr ''800000058068'',
      device_model = JStr ''VSP G350'', serial_number = JStr ''58068''\<rparr>"

text \<open>The URL that \<^verbatim>\<open>logout\<close> builds for \<open>example_handler\<close>.\<close>

definition example_logout_url :: string where
  "example_logout_url = ''/ConfigurationManager/v1/objects/storages/800000058068/sessions/5''"

text \<open>A handler as the constructor leaves it.\<close>

definition new_handler :: vsp_handler where
  "new_handler =
     \<lparr>rest_host = Some ''192.168.1.10'', rest_username = ''admin'',
      rest_password = ''enc:secret'', san_address = ''https://192.168.1.10:443'',
      session = None, sent = [],
      session_id = None, storage_device_id = JNull,
      device_model = JNull, serial_number = JNull\<rparr>"

text \<open>Discovered systems: \<open>system_ctl\<close> is a supported model reached at its first
  controller, \<open>system_svp\<close> another model reached at its service processor,
  \<open>system_both\<close> a supported model whose service processor alone has the configured
  address, \<open>system_other\<close> an array at other addresses.\<close>

definition system_ctl :: "(string \<times> json) list" where
  "system_ctl =
     [(''storageDeviceId'', JStr ''800000058068''), (''model'', JStr ''VSP G350''),
      (''serialNumber'', JInt 58068), (''ctl1Ip'', JStr ''192.168.1.10''),
      (''ctl2Ip'', JStr ''192.168.1.11'')]"

definition system_svp :: "(string \<times> json) list" where
  "system_svp =
     [(''storageDeviceId'', JStr ''836000123456''), (''model'', JStr ''VSP G1000''),
      (''serialNumber'', JInt 123456), (''svpIp'', JStr ''192.168.1.10'')]"

definition system_both :: "(string \<times> json) list" where
  "system_both =
     [(''storageDeviceId'', JStr ''800000077777''), (''model'', JStr ''VSP G370''),
      (''serialNumber'', JInt 77777), (''ctl1Ip'', JStr ''10.0.0.1''),
      (''ctl2Ip'', JStr ''10.0.0.2''), (''svpIp'', JStr ''192.168.1.10'')]"

definition system_other :: "(string \<times> json) list" where
  "system_other =
     [(''storageDeviceId'', JStr ''800000099999''), (''model'', JStr ''VSP G350''),
      (''serialNumber'', JInt 99999), (''ctl1Ip'', JStr ''10.0.0.1''),
      (''ctl2Ip'', JStr ''10.0.0.2'')]"

text \<open>A transport whose discovery answer lists the given systems.\<close>

definition discovering :: "json list \<Rightarrow> request list \<Rightarrow> request \<Rightarrow> exn + response" where
  "discovering systems = answering 200 ''ok'' (Some (JObj [(''data'', JArr systems)]))"


section \<open>What one authenticated request does to the handler\<close>

lemmas ex_defs = example_env_def answering_def example_handler_def AUTH_KEY_def COMM_URL_def
  LOGOUT_URL_def

lemmas run_defs = call_def call_with_token_def get_token_def do_call_def with_session_def
  init_http_head_def res_json_def py_get_def dict_get_def

lemma session_update_same:
  "session st = Some s \<Longrightarrow> st\<lparr>session := Some s\<rparr> = st"
  by (cases st) simp

text \<open>When \<^verbatim>\<open>call_with_token\<close> returns, the handler differs from the one it started on
  by the one recorded invocation of \<^verbatim>\<open>do_call\<close> only: the header slot holds again what
  it held before.\<close>

lemma call_with_token_returns:
  assumes "call_with_token env st url data method t = (Inr res, st')"
  shows "\<exists>rq. st' = st\<lparr>sent := sent st @ [rq]\<rparr>"
  using assms
  by (auto simp: call_with_token_def do_call_def with_session_def Let_def map_upd_triv
                 session_update_same
           split: option.splits if_splits sum.splits prod.splits)

text \<open>Whatever its outcome, \<^verbatim>\<open>call_with_token\<close> invokes \<^verbatim>\<open>do_call\<close> at most once, and
  so does \<^verbatim>\<open>get_token\<close>.\<close>

lemma call_with_token_sent:
  assumes "call_with_token env st url data method t = (r, st')"
  shows "length (sent st') \<le> Suc (length (sent st))"
  using assms
  by (auto simp: call_with_token_def do_call_def with_session_def Let_def
           split: option.splits if_splits sum.splits prod.splits)

lemma get_token_sent:
  assumes "get_token env st = (r, st')"
  shows "length (sent st') \<le> Suc (length (sent st))"
  using assms
  by (auto simp: get_token_def init_http_head_def with_session_def Let_def
           dest!: call_with_token_sent
           split: option.splits if_splits sum.splits prod.splits)

text \<open>\<^verbatim>\<open>get_token\<close> returns \<^verbatim>\<open>False\<close> only on its \<^verbatim>\<open>else\<close> branch, which touches nothing.\<close>

lemma get_token_False:
  "get_token env st = (Inr False, st') \<Longrightarrow> st' = st"
  by (auto simp: get_token_def Let_def split: option.splits if_splits sum.splits prod.splits)

section \<open>The authenticated call\<close>

text \<open>
  C4. A first response with status 503, where 503 is not one of the two session codes,
  makes \<^verbatim>\<open>call\<close> raise \<^verbatim>\<open>InvalidResults\<close> with the text of that response; the handler
  is the one the first request left, with exactly one invocation of \<^verbatim>\<open>do_call\<close>
  recorded: no re-authentication and no retry.
\<close>

theorem call_503_raises_at_once:
  assumes "call_with_token env st url data method t = (Inr res, st1)"
      and "status_code res = 503"
      and "ERROR_SESSION_INVALID_CODE env \<noteq> 503"
      and "ERROR_SESSION_IS_BEING_USED_CODE env \<noteq> 503"
  shows "call env st url data method t = (Inl (InvalidResults (res_text res)), st1)
         \<and> length (sent st1) = Suc (length (sent st))"
proof -
  from assms(1) obtain rq where "st1 = st\<lparr>sent := sent st @ [rq]\<rparr>"
    using call_with_token_returns by blast
  then have "length (sent st1) = Suc (length (sent st))" by simp
  moreover have "call env st url data method t = (Inl (InvalidResults (res_text res)), st1)"
    using assms by (simp add: call_def)
  ultimately show ?thesis by simp
qed

theorem call_503_raises_at_once_witness:
  "fst (call (example_env (answering 503 ''unavailable'' None)) example_handler
          ''/x'' JNull (Some ''GET'') 180) = Inl (InvalidResults ''unavailable'')
   \<and> length (sent (snd (call (example_env (answering 503 ''unavailable'' None)) example_handler
          ''/x'' JNull (Some ''GET'') 180))) = 1"
proof -
  let ?env = "example_env (answering 503 ''unavailable'' None)"
  let ?res = "\<lparr>status_code = 503, res_text = ''unavailable'', res_body = None\<rparr>"
  let ?st1 = "example_handler\<lparr>sent :=
                [\<lparr>req_url = ''/x'', req_data = JNull, req_method = Some ''GET'',
                  req_timeout = Some 180,
                  req_session = Some \<lparr>headers = [AUTH_KEY \<mapsto> ''Session tok0''],
                                       auth = None\<rparr>\<rparr>]\<rparr>"
  have h1: "call_with_token ?env example_handler ''/x'' JNull (Some ''GET'') 180
              = (Inr ?res, ?st1)"
    by (simp add: call_with_token_def do_call_def with_session_def example_env_def
                  answering_def example_handler_def AUTH_KEY_def)
  have h2: "status_code ?res = 503" by simp
  have h3: "ERROR_SESSION_INVALID_CODE ?env \<noteq> 503" by (simp add: example_env_def)
  have h4: "ERROR_SESSION_IS_BEING_USED_CODE ?env \<noteq> 503" by (simp add: example_env_def)
  show ?thesis using call_503_raises_at_once [OF h1 h2 h3 h4]
    by (simp add: example_handler_def)
qed

text \<open>
  C1, as the code has it. When the first response carries one of the two session codes
  and the request is not a \<^verbatim>\<open>DELETE\<close> on a URL containing \<^verbatim>\<open>LOGOUT_URL\<close>, \<^verbatim>\<open>call\<close> runs
  \<^verbatim>\<open>get_token\<close> once on the handler the first request left. If \<^verbatim>\<open>get_token\<close> returns
  \<^verbatim>\<open>True\<close>, the outcome of \<^verbatim>\<open>call\<close> is that of one further \<^verbatim>\<open>call_with_token\<close> with the
  same arguments; if it returns \<^verbatim>\<open>False\<close>, \<^verbatim>\<open>call\<close> returns the first response; if it
  raises, \<^verbatim>\<open>call\<close> raises the same exception and does not retry. In every case \<^verbatim>\<open>call\<close>
  invokes \<^verbatim>\<open>do_call\<close> at most three times.
\<close>

theorem call_session_invalid:
  assumes "call_with_token env st url data method t = (Inr res, st1)"
      and "status_code res = ERROR_SESSION_INVALID_CODE env
           \<or> status_code res = ERROR_SESSION_IS_BEING_USED_CODE env"
      and "method \<noteq> Some ''DELETE'' \<or> \<not> str_in LOGOUT_URL url"
  shows "call env st url data method t =
           (case get_token env st1 of
              (Inl e, st2) \<Rightarrow> (Inl e, st2)
            | (Inr renewed, st2) \<Rightarrow>
                if renewed then call_with_token env st2 url data method t else (Inr res, st1))
         \<and> length (sent (snd (call env st url data method t))) \<le> length (sent st) + 3"
proof -
  have eq: "call env st url data method t =
           (case get_token env st1 of
              (Inl e, st2) \<Rightarrow> (Inl e, st2)
            | (Inr renewed, st2) \<Rightarrow>
                if renewed then call_with_token env st2 url data method t else (Inr res, st1))"
    using assms
    by (auto simp: call_def dest: get_token_False split: prod.splits sum.splits bool.splits)
  have n1: "length (sent st1) \<le> Suc (length (sent st))"
    using assms(1) by (rule call_with_token_sent)
  obtain r2 st2 where g: "get_token env st1 = (r2, st2)" by (cases "get_token env st1")
  then have n2: "length (sent st2) \<le> Suc (length (sent st1))" by (rule get_token_sent)
  obtain r3 st3 where c: "call_with_token env st2 url data method t = (r3, st3)"
    by (cases "call_with_token env st2 url data method t")
  then have n3: "length (sent st3) \<le> Suc (length (sent st2))" by (rule call_with_token_sent)
  have "length (sent (snd (call env st url data method t))) \<le> length (sent st) + 3"
    using eq g c n1 n2 n3 by (auto split: sum.splits)
  with eq show ?thesis by simp
qed

theorem call_session_invalid_witness:
  "fst (call (example_env refreshing) example_handler ''/x'' JNull (Some ''GET'') 180)
     = Inr \<lparr>status_code = 200, res_text = ''ok'', res_body = Some (JObj [])\<rparr>
   \<and> map req_method (sent (snd (call (example_env refreshing) example_handler ''/x'' JNull
                                   (Some ''GET'') 180)))
     = [Some ''GET'', Some ''POST'', Some ''GET'']"
proof -
  let ?env = "example_env refreshing"
  let ?res = "\<lparr>status_code = 403, res_text = ''session invalid'', res_body = None\<rparr>"
  let ?st1 = "snd (call_with_token ?env example_handler ''/x'' JNull (Some ''GET'') 180)"
  have h1: "call_with_token ?env example_handler ''/x'' JNull (Some ''GET'') 180
              = (Inr ?res, ?st1)"
    by (simp add: call_with_token_def do_call_def with_session_def ex_defs refreshing_def)
  have h2: "status_code ?res = ERROR_SESSION_INVALID_CODE ?env
            \<or> status_code ?res = ERROR_SESSION_IS_BEING_USED_CODE ?env"
    by (simp add: example_env_def)
  have h3: "Some ''GET'' \<noteq> Some ''DELETE'' \<or> \<not> str_in LOGOUT_URL ''/x''" by simp
  show ?thesis
    using call_session_invalid [OF h1 h2 h3]
    by (simp add: run_defs ex_defs refreshing_def)
qed

text \<open>Against an array that answers every request, the login POST included, with the
  session-invalid code 403: the first response of a \<^verbatim>\<open>GET\<close> is session-invalid, the
  re-authentication fails, and \<^verbatim>\<open>call\<close> raises \<^verbatim>\<open>BadResponse\<close> instead of returning that
  first response; the retry is never sent.\<close>

theorem call_reauth_failure_counterexample:
  "fst (call_with_token (example_env (answering 403 ''session invalid'' None)) example_handler
          ''/x'' JNull (Some ''GET'') 180)
     = Inr \<lparr>status_code = 403, res_text = ''session invalid'', res_body = None\<rparr>
   \<and> ERROR_SESSION_INVALID_CODE (example_env (answering 403 ''session invalid'' None)) = 403
   \<and> fst (call (example_env (answering 403 ''session invalid'' None)) example_handler
            ''/x'' JNull (Some ''GET'') 180)
     = Inl (BadResponse ''session invalid'')
   \<and> map req_method (sent (snd (call (example_env (answering 403 ''session invalid'' None))
                                   example_handler ''/x'' JNull (Some ''GET'') 180)))
     = [Some ''GET'', Some ''POST'']"
  by (simp add: run_defs ex_defs)

text \<open>
  C10. When the header slot holds a non-empty value that decodes, and the transport
  raises on the request that carries the decoded header, \<^verbatim>\<open>call_with_token\<close> raises that
  exception and leaves the decoded value in the header slot; \<^verbatim>\<open>call\<close> passes the
  exception and the handler on unchanged.
\<close>

theorem call_with_token_transport_exception:
  assumes "session st = Some s"
      and "headers s AUTH_KEY = Some auth_key"
      and "auth_key \<noteq> []"
      and "cryptor_decode env auth_key = Inr plain"
      and "transport env (sent st)
             \<lparr>req_url = url, req_data = data, req_method = method, req_timeout = Some t,
              req_session = Some (s\<lparr>headers := (headers s)(AUTH_KEY \<mapsto> plain)\<rparr>)\<rparr> = Inl e"
  shows "fst (call_with_token env st url data method t) = Inl e
         \<and> auth_header (snd (call_with_token env st url data method t)) = Some plain
         \<and> call env st url data method t = call_with_token env st url data method t"
  using assms
  by (simp add: call_def call_with_token_def do_call_def auth_header_def)

theorem call_with_token_transport_exception_witness:
  "fst (call_with_token (example_env unreachable) example_handler ''/x'' JNull (Some ''GET'') 180)
     = Inl (OtherError ''connection refused'')
   \<and> auth_header (snd (call_with_token (example_env unreachable) example_handler ''/x'' JNull
                         (Some ''GET'') 180)) = Some ''Session tok0''
   \<and> auth_header example_handler = Some ''enc:Session tok0''"
proof -
  let ?env = "example_env unreachable"
  let ?s = "\<lparr>headers = [AUTH_KEY \<mapsto> ''enc:Session tok0''], auth = None\<rparr>"
  have h1: "session example_handler = Some ?s" by (simp add: example_handler_def)
  have h2: "headers ?s AUTH_KEY = Some ''enc:Session tok0''" by simp
  have h3: "''enc:Session tok0'' \<noteq> []" by simp
  have h4: "cryptor_decode ?env ''enc:Session tok0'' = Inr ''Session tok0''"
    by (simp add: example_env_def)
  have h5: "transport ?env (sent example_handler)
             \<lparr>req_url = ''/x'', req_data = JNull, req_method = Some ''GET'', req_timeout = Some 180,
              req_session = Some (?s\<lparr>headers := (headers ?s)(AUTH_KEY \<mapsto> ''Session tok0'')\<rparr>)\<rparr>
            = Inl (OtherError ''connection refused'')"
    by (simp add: example_env_def unreachable_def)
  show ?thesis
    using call_with_token_transport_exception [OF h1 h2 h3 h4 h5]
    by (simp add: auth_header_def example_handler_def)
qed

section \<open>Logout\<close>

text \<open>
  C2, evaluated. The URL that \<^verbatim>\<open>logout\<close> builds for a handler with device id
  \<^verbatim>\<open>800000058068\<close> and session id \<^verbatim>\<open>5\<close> does not contain \<^verbatim>\<open>LOGOUT_URL\<close>. When the array
  answers the \<^verbatim>\<open>DELETE\<close> on it with the session-invalid code, \<^verbatim>\<open>logout\<close> sends three
  requests: the \<^verbatim>\<open>DELETE\<close>, the login \<^verbatim>\<open>POST\<close> of \<^verbatim>\<open>get_token\<close>, and the \<^verbatim>\<open>DELETE\<close> again.
\<close>

theorem logout_delete_is_retried:
  "str_in LOGOUT_URL example_logout_url = False
   \<and> fst (call_with_token (example_env refreshing) example_handler example_logout_url JNull
            (Some ''DELETE'') 180)
     = Inr \<lparr>status_code = 403, res_text = ''session invalid'', res_body = None\<rparr>
   \<and> map (\<lambda>rq. (req_method rq, req_url rq))
        (sent (snd (logout (example_env refreshing) example_handler)))
     = [(Some ''DELETE'', example_logout_url),
        (Some ''POST'', ''/ConfigurationManager/v1/objects/storages/800000058068/sessions''),
        (Some ''DELETE'', example_logout_url)]"
  by (simp add: logout_def Let_def run_defs ex_defs refreshing_def example_logout_url_def)



section \<open>Login and device discovery\<close>

text \<open>
  C3, evaluated. The discovery answer lists one system, at addresses other than the
  configured host, so the loop selects nothing and the device id stays \<^verbatim>\<open>None\<close>; yet
  \<^verbatim>\<open>login\<close> returns \<^verbatim>\<open>True\<close>, because \<^verbatim>\<open>succeed\<close> is set at the head of every iteration.
\<close>

theorem login_without_match_reports_success:
  "system_matches (example_env (discovering [JObj system_other])) (rest_host new_handler)
     system_other = False
   \<and> fst (login (example_env (discovering [JObj system_other])) new_handler) = Inr True
   \<and> storage_device_id (snd (login (example_env (discovering [JObj system_other])) new_handler))
     = JNull"
  by (simp add: login_def get_device_id_def get_system_info_def get_rest_info_def needs_token_def
        py_iter_def system_matches_def in_series_def eq_host_def select_system_def
        discovering_def system_other_def new_handler_def run_defs ex_defs)

section \<open>Cached secrets stay in encrypted form\<close>

lemma get_token_stages:
  "get_token env st =
     (if san_address st \<noteq> [] then
        (case token_request env st of
           (Inl e, st3) \<Rightarrow> (Inl e, st3)
         | (Inr res, st3) \<Rightarrow> token_store env res st3)
      else (Inr False, st))"
  unfolding get_token_def token_request_def token_store_def Let_def
  by (simp split: sum.split prod.split)

lemma encodedI: "cryptor_encode env p = Inr h \<Longrightarrow> encoded env h"
  by (auto simp: encoded_def)

lemma secrets_encoded_cong:
  "session st' = session st \<Longrightarrow> session_id st' = session_id st
     \<Longrightarrow> secrets_encoded env st' = secrets_encoded env st"
  by (simp add: secrets_encoded_def auth_header_def)

text \<open>\<^verbatim>\<open>call_with_token\<close> never touches the session id, and leaves the session as it found
  it unless the transport raised.\<close>

lemma call_with_token_outcome:
  assumes "call_with_token env st url data method t = (r, st')"
  shows "session_id st' = session_id st
         \<and> (case r of
               Inr res \<Rightarrow> session st' = session st
             | Inl e \<Rightarrow> session st' = session st \<or> transport_raised env e st')"
  using assms
  by (auto simp: call_with_token_def do_call_def with_session_def Let_def map_upd_triv
                 session_update_same transport_raised_def
           split: option.splits if_splits sum.splits prod.splits)

lemma call_with_token_secrets:
  assumes "call_with_token env st url data method t = (r, st')"
      and "secrets_encoded env st"
  shows "case r of
           Inr res \<Rightarrow> secrets_encoded env st'
         | Inl e \<Rightarrow> secrets_encoded env st' \<or> transport_raised env e st'"
proof -
  note o = call_with_token_outcome [OF assms(1)]
  have same: "session st' = session st \<Longrightarrow> secrets_encoded env st'"
    using o assms(2) secrets_encoded_cong [of st' st env] by simp
  show ?thesis using o same by (cases r) auto
qed

lemma token_request_secrets:
  assumes "token_request env st = (r, st')"
      and "secrets_encoded env st"
      and "headers (new_session env) AUTH_KEY = None"
  shows "case r of
           Inr res \<Rightarrow> secrets_encoded env st'
         | Inl e \<Rightarrow> secrets_encoded env st' \<or> transport_raised env e st'"
proof -
  define st1 where "st1 = (if session st = None then init_http_head env st else st)"
  have s1: "secrets_encoded env st1"
    using assms(2,3)
    by (auto simp: st1_def init_http_head_def secrets_encoded_def auth_header_def)
  show ?thesis
  proof (cases "cryptor_decode env (rest_password st1)")
    case (Inl e)
    with assms(1) s1 show ?thesis
      by (auto simp: token_request_def Let_def st1_def [symmetric])
  next
    case (Inr password)
    show ?thesis
    proof (cases "session st1")
      case None
      with Inr assms(1) s1 show ?thesis
        by (auto simp: token_request_def Let_def st1_def [symmetric] with_session_def)
    next
      case (Some s)
      define st2 where
        "st2 = st1\<lparr>session := Some (s\<lparr>auth := Some (rest_username st1, password)\<rparr>)\<rparr>"
      have s2: "secrets_encoded env st2"
        using s1 Some by (simp add: st2_def secrets_encoded_def auth_header_def)
      have "call_with_token env st2
              (COMM_URL @ ''/'' @ py_str env (storage_device_id st) @ ''/sessions'')
              (JObj []) (Some ''POST'') 30 = (r, st')"
        using assms(1) Inr Some
        by (simp add: token_request_def Let_def st1_def [symmetric] with_session_def
                      st2_def [symmetric])
      from call_with_token_secrets [OF this s2] show ?thesis .
    qed
  qed
qed

lemma token_store_secrets:
  assumes "token_store env res st = (r, st')"
      and "secrets_encoded env st"
  shows "secrets_encoded env st'"
  using assms
  by (auto simp: token_store_def Let_def with_session_def secrets_encoded_def auth_header_def
           dest!: encodedI
           split: if_splits sum.splits option.splits)

lemma get_token_secrets:
  assumes "get_token env st = (r, st')"
      and "secrets_encoded env st"
      and "headers (new_session env) AUTH_KEY = None"
  shows "case r of
           Inr ok \<Rightarrow> secrets_encoded env st'
         | Inl e \<Rightarrow> secrets_encoded env st' \<or> transport_raised env e st'"
proof (cases "san_address st = []")
  case True
  with assms show ?thesis by (auto simp: get_token_stages)
next
  case False
  obtain r3 st3 where q: "token_request env st = (r3, st3)"
    by (cases "token_request env st")
  note o3 = token_request_secrets [OF q assms(2,3)]
  show ?thesis
  proof (cases r3)
    case (Inl e)
    with False q o3 assms(1) show ?thesis by (auto simp: get_token_stages)
  next
    case (Inr res)
    with False q assms(1) have "token_store env res st3 = (r, st')"
      by (simp add: get_token_stages)
    moreover from o3 Inr have "secrets_encoded env st3" by simp
    ultimately have "secrets_encoded env st'" by (rule token_store_secrets)
    then show ?thesis by (cases r) simp_all
  qed
qed

text \<open>
  Where the cached secrets do stay in encrypted form. Start \<^verbatim>\<open>call\<close> on a handler whose
  \<^verbatim>\<open>Authorization\<close> header and session id are absent or in encrypted form, with an
  \<^verbatim>\<open>init_http_head\<close> that installs no \<^verbatim>\<open>Authorization\<close> header. When \<^verbatim>\<open>call\<close> returns a
  response, both are absent or in encrypted form again: \<^verbatim>\<open>call_with_token\<close> has put the
  encrypted header back after each request, and \<^verbatim>\<open>get_token\<close> has stored nothing but
  results of \<^verbatim>\<open>cryptor.encode\<close>. The same holds when \<^verbatim>\<open>call\<close> raises, with one exception:
  the transport raised on the latest request.
\<close>

lemma call_keeps_secrets_encoded:
  assumes "call env st url data method t = (r, st')"
      and "secrets_encoded env st"
      and "headers (new_session env) AUTH_KEY = None"
  shows "case r of
           Inr res \<Rightarrow> secrets_encoded env st'
         | Inl e \<Rightarrow> secrets_encoded env st' \<or> transport_raised env e st'"
proof -
  obtain r1 st1 where c1: "call_with_token env st url data method t = (r1, st1)"
    by (cases "call_with_token env st url data method t")
  note o1 = call_with_token_secrets [OF c1 assms(2)]
  show ?thesis
  proof (cases r1)
    case (Inl e)
    with c1 o1 assms(1) show ?thesis by (auto simp: call_def)
  next
    case (Inr res)
    with o1 have s1: "secrets_encoded env st1" by simp
    obtain r2 st2 where g: "get_token env st1 = (r2, st2)"
      by (cases "get_token env st1")
    note o2 = get_token_secrets [OF g s1 assms(3)]
    show ?thesis
    proof (cases r2)
      case (Inl e)
      with Inr c1 g o2 s1 assms(1) show ?thesis
        by (auto simp: call_def split: if_splits)
    next
      case ok: (Inr renewed)
      with o2 have s2: "secrets_encoded env st2" by simp
      obtain r3 st3 where c3: "call_with_token env st2 url data method t = (r3, st3)"
        by (cases "call_with_token env st2 url data method t")
      note o3 = call_with_token_secrets [OF c3 s2]
      from Inr ok c1 g c3 o3 s1 s2 assms(1) show ?thesis
        by (cases renewed) (auto simp: call_def split: if_splits sum.splits)
    qed
  qed
qed

lemma call_keeps_secrets_encoded_example:
  "secrets_encoded (example_env refreshing)
     (snd (call (example_env refreshing) example_handler ''/x'' JNull (Some ''GET'') 180))
   \<and> auth_header (snd (call (example_env refreshing) example_handler ''/x'' JNull
                         (Some ''GET'') 180)) = Some ''enc:Session tok1''"
proof -
  let ?env = "example_env refreshing"
  let ?res = "\<lparr>status_code = 200, res_text = ''ok'', res_body = Some (JObj [])\<rparr>"
  let ?st' = "snd (call ?env example_handler ''/x'' JNull (Some ''GET'') 180)"
  have h1: "call ?env example_handler ''/x'' JNull (Some ''GET'') 180 = (Inr ?res, ?st')"
    by (simp add: run_defs ex_defs refreshing_def)
  have e1: "encoded ?env ''enc:Session tok0''"
    by (rule encodedI [of _ "JStr ''Session tok0''"]) (simp add: example_env_def)
  have e2: "encoded ?env ''enc:5''"
    by (rule encodedI [of _ "JStr ''5''"]) (simp add: example_env_def)
  have h2: "secrets_encoded ?env example_handler"
    using e1 e2 by (simp add: secrets_encoded_def auth_header_def example_handler_def)
  have h3: "headers (new_session ?env) AUTH_KEY = None" by (simp add: example_env_def)
  have "secrets_encoded ?env ?st'" using call_keeps_secrets_encoded [OF h1 h2 h3] by simp
  moreover have "auth_header ?st' = Some ''enc:Session tok1''"
    by (simp add: auth_header_def run_defs ex_defs refreshing_def)
  ultimately show ?thesis by simp
qed

text \<open>
  C5, evaluated on that exception. The handler holds an encrypted header and an encrypted
  session id, and the transport cannot reach the array. \<^verbatim>\<open>call\<close> raises the transport's
  exception, and the header slot of the shared session is left holding the decoded
  \<^verbatim>\<open>Session tok0\<close>, which is not in encrypted form: the assignment that restores the
  header, made when \<^verbatim>\<open>do_call\<close> returns, is skipped when it raises.
\<close>

theorem call_transport_failure_leaves_plaintext:
  "secrets_encoded (example_env unreachable) example_handler
   \<and> fst (call (example_env unreachable) example_handler ''/x'' JNull (Some ''GET'') 180)
     = Inl (OtherError ''connection refused'')
   \<and> auth_header (snd (call (example_env unreachable) example_handler ''/x'' JNull
                         (Some ''GET'') 180)) = Some ''Session tok0''
   \<and> secrets_encoded (example_env unreachable)
         (snd (call (example_env unreachable) example_handler ''/x'' JNull (Some ''GET'') 180))
     = False"
proof -
  let ?env = "example_env unreachable"
  let ?st' = "snd (call ?env example_handler ''/x'' JNull (Some ''GET'') 180)"
  have e1: "encoded ?env ''enc:Session tok0''"
    by (rule encodedI [of _ "JStr ''Session tok0''"]) (simp add: example_env_def)
  have e2: "encoded ?env ''enc:5''"
    by (rule encodedI [of _ "JStr ''5''"]) (simp add: example_env_def)
  have before: "secrets_encoded ?env example_handler"
    using e1 e2 by (simp add: secrets_encoded_def auth_header_def example_handler_def)
  have raised: "fst (call ?env example_handler ''/x'' JNull (Some ''GET'') 180)
                  = Inl (OtherError ''connection refused'')"
    by (simp add: run_defs ex_defs unreachable_def)
  have slot: "auth_header ?st' = Some ''Session tok0''"
    by (simp add: auth_header_def run_defs ex_defs unreachable_def)
  have plain: "\<not> encoded ?env ''Session tok0''"
    by (auto simp: encoded_def example_env_def split: json.splits)
  have after: "secrets_encoded ?env ?st' = False"
    using slot plain by (simp add: secrets_encoded_def)
  from before raised slot after show ?thesis by simp
qed

section \<open>First match wins in device discovery\<close>

text \<open>None of the handler's methods changes the configured host.\<close>

lemma call_with_token_rest_host:
  "call_with_token env st url data method t = (r, st') \<Longrightarrow> rest_host st' = rest_host st"
  by (auto simp: call_with_token_def do_call_def with_session_def Let_def
           split: option.splits if_splits sum.splits prod.splits)

lemma token_request_rest_host:
  "token_request env st = (r, st') \<Longrightarrow> rest_host st' = rest_host st"
  by (auto simp: token_request_def init_http_head_def with_session_def Let_def
           dest!: call_with_token_rest_host
           split: option.splits if_splits sum.splits)

lemma token_store_rest_host:
  "token_store env res st = (r, st') \<Longrightarrow> rest_host st' = rest_host st"
  by (auto simp: token_store_def with_session_def Let_def
           split: option.splits if_splits sum.splits)

lemma get_token_rest_host:
  "get_token env st = (r, st') \<Longrightarrow> rest_host st' = rest_host st"
  by (auto simp: get_token_stages dest!: token_request_rest_host token_store_rest_host
           split: if_splits sum.splits prod.splits)

lemma call_rest_host:
  "call env st url data method t = (r, st') \<Longrightarrow> rest_host st' = rest_host st"
  by (auto simp: call_def dest!: call_with_token_rest_host get_token_rest_host
           split: if_splits sum.splits prod.splits bool.splits)

lemma get_system_info_rest_host:
  "get_system_info env st = (r, st') \<Longrightarrow> rest_host st' = rest_host st"
  by (auto simp: get_system_info_def get_rest_info_def needs_token_def
           dest!: call_rest_host
           split: if_splits sum.splits prod.splits option.splits)

text \<open>The loop passes over every entry that is not selected and stops at the first that
  is, whatever follows it.\<close>

lemma get_device_id_loop_first_match:
  assumes "list_all (passed_over env (rest_host st)) before"
      and "system_matches env (rest_host st) system"
  shows "get_device_id_loop env (before @ JObj system # later) succeed st
           = (Inr True, select_system system st)"
  using assms
proof (induction before arbitrary: succeed)
  case Nil
  then show ?case by (simp add: system_matches_def split: if_splits)
next
  case (Cons v before)
  then show ?case
    by (cases v) (auto simp: passed_over_def system_matches_def split: if_splits)
qed

text \<open>
  C6, as the code has it. Let the discovery answer be a dict whose \<^verbatim>\<open>data\<close> is a list in
  which \<open>system\<close> is the first entry that is selected: an entry is selected when its model
  is in the supported series and its \<^verbatim>\<open>ctl1Ip\<close> or \<^verbatim>\<open>ctl2Ip\<close> is the configured host, or
  when its model is not in the supported series and its \<^verbatim>\<open>svpIp\<close> is the configured host.
  Then \<^verbatim>\<open>get_device_id\<close> returns \<^verbatim>\<open>True\<close> with the device id, the model and the serial
  number taken from \<open>system\<close>; the entries after it play no part.
\<close>

theorem get_device_id_first_match:
  assumes "get_system_info env (if session st = None then init_http_head env st else st)
             = (Inr (JObj body), st2)"
      and "dict_get body ''data'' = JArr (before @ JObj system # later)"
      and "list_all (passed_over env (rest_host st)) before"
      and "system_matches env (rest_host st) system"
  shows "get_device_id env st = (Inr True, select_system system st2)"
proof -
  have "rest_host st2 = rest_host (if session st = None then init_http_head env st else st)"
    using assms(1) by (rule get_system_info_rest_host)
  then have h: "rest_host st2 = rest_host st" by (simp add: init_http_head_def)
  have "get_device_id_loop env (before @ JObj system # later) False st2
          = (Inr True, select_system system st2)"
    using assms(3,4) h by (simp add: get_device_id_loop_first_match)
  then show ?thesis
    using assms(1,2) by (simp add: get_device_id_def Let_def py_get_def py_iter_def)
qed

theorem get_device_id_first_match_witness:
  "fst (get_device_id (example_env (discovering [JObj system_other, JObj system_ctl, JObj system_svp]))
          new_handler) = Inr True
   \<and> storage_device_id (snd (get_device_id
          (example_env (discovering [JObj system_other, JObj system_ctl, JObj system_svp]))
          new_handler)) = JStr ''800000058068''"
proof -
  let ?env = "example_env (discovering [JObj system_other, JObj system_ctl, JObj system_svp])"
  let ?body = "[(''data'', JArr [JObj system_other, JObj system_ctl, JObj system_svp])]"
  let ?st1 = "if session new_handler = None then init_http_head ?env new_handler else new_handler"
  let ?st2 = "snd (get_system_info ?env ?st1)"
  have h1: "get_system_info ?env ?st1 = (Inr (JObj ?body), ?st2)"
    by (simp add: login_def get_device_id_def get_system_info_def get_rest_info_def
        needs_token_def py_iter_def system_matches_def spec_system_matches_def
        passed_over_def in_series_def eq_host_def select_system_def discovering_def
        new_handler_def run_defs ex_defs)
  have h2: "dict_get ?body ''data'' = JArr ([JObj system_other] @ JObj system_ctl # [JObj system_svp])"
    by (simp add: dict_get_def)
  have h3: "list_all (passed_over ?env (rest_host new_handler)) [JObj system_other]"
    by (simp add: login_def get_device_id_def get_system_info_def get_rest_info_def
        needs_token_def py_iter_def system_matches_def spec_system_matches_def
        passed_over_def in_series_def eq_host_def select_system_def discovering_def
        new_handler_def dict_get_def system_other_def example_env_def)
  have h4: "system_matches ?env (rest_host new_handler) system_ctl"
    by (simp add: login_def get_device_id_def get_system_info_def get_rest_info_def
        needs_token_def py_iter_def system_matches_def spec_system_matches_def
        passed_over_def in_series_def eq_host_def select_system_def discovering_def
        new_handler_def dict_get_def system_ctl_def example_env_def)
  show ?thesis
    using get_device_id_first_match [OF h1 h2 h3 h4]
    by (simp add: select_system_def dict_get_def system_ctl_def)
qed

text \<open>A supported model whose service-processor address alone is the configured host
  satisfies the condition in the words of the specification, and comes first; the code
  passes over it and selects the system after it.\<close>

theorem get_device_id_spec_match_counterexample:
  "spec_system_matches (example_env (discovering [JObj system_both, JObj system_svp]))
     (rest_host new_handler) system_both
   \<and> dict_get system_both ''storageDeviceId'' = JStr ''800000077777''
   \<and> storage_device_id (snd (get_device_id
        (example_env (discovering [JObj system_both, JObj system_svp])) new_handler))
     = JStr ''836000123456''"
  by (simp add: login_def get_device_id_def get_system_info_def get_rest_info_def
        needs_token_def py_iter_def system_matches_def spec_system_matches_def
        passed_over_def in_series_def eq_host_def select_system_def discovering_def
        new_handler_def run_defs ex_defs system_both_def system_svp_def)

section \<open>Reading a resource\<close>




end
